theory Spec2Isabelle
  imports Main "HOL-Library.Word"
begin

unbundle bit_operations_syntax

section \<open>Bytes, text and exceptions\<close>

text \<open>
  The parser of \<^verbatim>\<open>rdb_parser.py\<close> reads a binary file through a cursor and decodes
  packed containers held in \<^verbatim>\<open>bytes\<close> objects. A \<^verbatim>\<open>bytes\<close> object is a list of
  8-bit words; indexing it (\<^verbatim>\<open>data[i]\<close>) yields a Python integer, here a natural number.
  A Python \<^verbatim>\<open>str\<close> is the list of its code points. Python integers are unbounded:
  lengths and offsets are \<open>nat\<close>, decoded signed values are \<open>int\<close>.
\<close>

type_synonym byte = "8 word"
type_synonym pystr = "nat list"

definition lit :: "string \<Rightarrow> pystr" where
  \<comment> \<open>an ASCII string literal of the source as a Python str\<close>
  "lit s = map of_char s"

text \<open>
  Every exception the parser can meet is a value. The constructors name the exception and
  carry what its message is built from.
\<close>

datatype error =
    EOF_unexpected
      \<comment> \<open>\<^verbatim>\<open>EOFError("Unexpected end of file")\<close>, from \<^verbatim>\<open>read_byte\<close>\<close>
  | EOF_expected nat nat
      \<comment> \<open>\<^verbatim>\<open>EOFError(f"Expected {n} bytes, got {len(data)}")\<close>, from \<^verbatim>\<open>read_bytes\<close>\<close>
  | Encoded_in_length
      \<comment> \<open>\<^verbatim>\<open>ValueError("Unexpected encoded value in length")\<close>, from \<^verbatim>\<open>read_length\<close>\<close>
  | Unknown_length_encoding nat
      \<comment> \<open>\<^verbatim>\<open>ValueError(f"Unknown length encoding: {byte}")\<close>\<close>
  | Float_error "byte list"
      \<comment> \<open>raised by \<^verbatim>\<open>float(data.decode('ascii'))\<close> in \<^verbatim>\<open>read_double\<close>\<close>
  | Timestamp_error nat
      \<comment> \<open>raised by \<^verbatim>\<open>datetime.fromtimestamp(expiry / 1000)\<close>\<close>
  | Bad_magic "byte list"
      \<comment> \<open>\<^verbatim>\<open>ValueError(f"Not a valid RDB file. Magic: {magic}")\<close>\<close>
  | Version_not_ascii "byte list"
      \<comment> \<open>\<^verbatim>\<open>UnicodeDecodeError\<close> of \<^verbatim>\<open>version.decode('ascii')\<close>\<close>
  | Index_error nat
      \<comment> \<open>\<^verbatim>\<open>IndexError\<close>: \<^verbatim>\<open>data[i]\<close> with \<open>i\<close> not below \<^verbatim>\<open>len(data)\<close>\<close>
  | Struct_error nat nat
      \<comment> \<open>\<^verbatim>\<open>struct.error\<close>: \<^verbatim>\<open>unpack\<close> wants the first number of bytes and got the second\<close>
  | Lzf_error
      \<comment> \<open>whatever \<^verbatim>\<open>lzf.decompress\<close> raises\<close>
  | Type_error
      \<comment> \<open>\<^verbatim>\<open>TypeError\<close>: \<^verbatim>\<open>len(None)\<close>\<close>
  | Overflow_error nat
      \<comment> \<open>\<^verbatim>\<open>OverflowError\<close> of \<^verbatim>\<open>self.file.read(n)\<close>: \<open>n\<close> is above \<^verbatim>\<open>sys.maxsize\<close>\<close>
  | Memory_error nat
      \<comment> \<open>\<^verbatim>\<open>MemoryError\<close> of \<^verbatim>\<open>self.file.read(n)\<close>: no buffer of \<open>n\<close> bytes\<close>

subsection \<open>Slices, indexing and \<^verbatim>\<open>struct.unpack\<close>\<close>

definition slice :: "'a list \<Rightarrow> nat \<Rightarrow> nat \<Rightarrow> 'a list" where
  \<comment> \<open>\<^verbatim>\<open>data[a:b]\<close> for non-negative bounds: clamped to the buffer, never an exception\<close>
  "slice data a b = take (b - a) (drop a data)"

definition idx :: "byte list \<Rightarrow> nat \<Rightarrow> error + nat" where
  \<comment> \<open>\<^verbatim>\<open>data[i]\<close>: an exception when \<open>i\<close> is out of range\<close>
  "idx data i = (if i < length data then Inr (unat (data ! i)) else Inl (Index_error i))"

fun le_uint :: "byte list \<Rightarrow> nat" where
  \<comment> \<open>the bytes as an unsigned integer, least significant byte first\<close>
  "le_uint [] = 0"
| "le_uint (b # bs) = unat b + 256 * le_uint bs"

definition to_signed :: "nat \<Rightarrow> nat \<Rightarrow> int" where
  \<comment> \<open>two's complement reading of an unsigned value of \<open>n\<close> bytes\<close>
  "to_signed n v = (if 2 ^ (8 * n - 1) \<le> v then int v - 2 ^ (8 * n) else int v)"

definition unpack_u :: "nat \<Rightarrow> byte list \<Rightarrow> error + nat" where
  \<comment> \<open>\<^verbatim>\<open>struct.unpack('<H' | '<I' | '<Q', bs)[0]\<close> for \<open>n\<close> = 2, 4, 8: the buffer must have
      exactly \<open>n\<close> bytes\<close>
  "unpack_u n bs = (if length bs = n then Inr (le_uint bs) else Inl (Struct_error n (length bs)))"

definition unpack_s :: "nat \<Rightarrow> byte list \<Rightarrow> error + int" where
  \<comment> \<open>\<^verbatim>\<open>struct.unpack('b' | '<h' | '<i' | '<q', bs)[0]\<close> for \<open>n\<close> = 1, 2, 4, 8\<close>
  "unpack_s n bs =
     (if length bs = n then Inr (to_signed n (le_uint bs)) else Inl (Struct_error n (length bs)))"

definition bindE :: "'e + 'a \<Rightarrow> ('a \<Rightarrow> 'e + 'b) \<Rightarrow> 'e + 'b" where
  \<comment> \<open>sequencing: an exception of the first computation skips the rest\<close>
  "bindE m k = (case m of Inl e \<Rightarrow> Inl e | Inr x \<Rightarrow> k x)"

section \<open>What the parser takes from its libraries\<close>

text \<open>
  Five things the parser takes from Python are parameters of the model. UTF-8 decoding with
  \<^verbatim>\<open>errors='replace'\<close> maps a buffer of ASCII bytes to the same code points; on any
  other buffer the result is the library's. The \<^verbatim>\<open>lzf\<close> module may be missing
  (\<open>None\<close>); when present, \<^verbatim>\<open>lzf.decompress\<close> returns bytes, or returns
  \<^verbatim>\<open>None\<close> (its answer when the data does not fit the expected length), or raises.
  \<^verbatim>\<open>float(data.decode('ascii'))\<close> and \<^verbatim>\<open>datetime.fromtimestamp\<close> return or raise.
  \<open>out_of_memory n\<close> says that the platform has no buffer of \<open>n\<close> bytes to give to
  \<^verbatim>\<open>file.read(n)\<close>.
\<close>

datatype lzf_result = Lzf_bytes "byte list" | Lzf_none | Lzf_raises

record env =
  utf8_replace :: "byte list \<Rightarrow> pystr"
  lzf :: "(byte list \<Rightarrow> nat \<Rightarrow> lzf_result) option"
  float_parses :: "byte list \<Rightarrow> bool"
  timestamp_ok :: "nat \<Rightarrow> bool"
  out_of_memory :: "nat \<Rightarrow> bool"

definition decode :: "env \<Rightarrow> byte list \<Rightarrow> pystr" where
  \<comment> \<open>\<^verbatim>\<open>data.decode('utf-8', errors='replace')\<close>\<close>
  "decode env data =
     (if list_all (\<lambda>b. b < 0x80) data then map unat data else utf8_replace env data)"

fun str_nat :: "nat \<Rightarrow> pystr" where
  \<comment> \<open>\<^verbatim>\<open>str(n)\<close> for \<open>n\<close> not negative: the decimal digits\<close>
  "str_nat n = (if n < 10 then [48 + n] else str_nat (n div 10) @ [48 + n mod 10])"

declare str_nat.simps [simp del]

definition str_int :: "int \<Rightarrow> pystr" where
  "str_int i = (if i < 0 then 45 # str_nat (nat (- i)) else str_nat (nat i))"

section \<open>The file cursor (ByteReader)\<close>

text \<open>
  \<^verbatim>\<open>self.file\<close> is read forward only, so the open file is the list of bytes not yet
  read. A read returns a value or raises, and in both cases leaves the cursor where it
  stopped: an exception does not rewind the file.
\<close>

type_synonym 'a reader = "byte list \<Rightarrow> (error + 'a) \<times> byte list"

definition returnR :: "'a \<Rightarrow> 'a reader" where
  "returnR x f = (Inr x, f)"

definition raiseR :: "error \<Rightarrow> 'a reader" where
  "raiseR e f = (Inl e, f)"

definition bindR :: "'a reader \<Rightarrow> ('a \<Rightarrow> 'b reader) \<Rightarrow> 'b reader" where
  "bindR m k f = (case m f of (Inl e, f') \<Rightarrow> (Inl e, f') | (Inr x, f') \<Rightarrow> k x f')"

definition read_byte :: "nat reader" where
  "read_byte f = (case f of [] \<Rightarrow> (Inl EOF_unexpected, []) | b # f' \<Rightarrow> (Inr (unat b), f'))"

text \<open>
  \<^verbatim>\<open>self.file.read(n)\<close> makes its buffer before it reads. A count above
  \<^verbatim>\<open>sys.maxsize\<close> (\<open>2 ^ 63 - 1\<close>, 64-bit CPython) raises \<^verbatim>\<open>OverflowError\<close>, and a
  count for which there is no memory raises \<^verbatim>\<open>MemoryError\<close>, both with the cursor where
  it was. A count the file can serve is taken to get its buffer. Otherwise the read
  consumes what is there, also when it is less than \<open>n\<close>, and \<^verbatim>\<open>read_bytes\<close> raises
  \<^verbatim>\<open>EOFError\<close> with the cursor at the end.
\<close>

definition read_bytes :: "env \<Rightarrow> nat \<Rightarrow> (byte list) reader" where
  "read_bytes env n f =
     (if 2 ^ 63 \<le> n then (Inl (Overflow_error n), f)
      else if length f < n \<and> out_of_memory env n then (Inl (Memory_error n), f)
      else
        (let data = take n f in
         if length data \<noteq> n then (Inl (EOF_expected n (length data)), drop n f)
         else (Inr data, drop n f)))"

definition read_signed_byte :: "env \<Rightarrow> int reader" where
  "read_signed_byte env = bindR (read_bytes env 1) (\<lambda>bs. returnR (to_signed 1 (le_uint bs)))"

definition read_signed_short :: "env \<Rightarrow> int reader" where
  "read_signed_short env = bindR (read_bytes env 2) (\<lambda>bs. returnR (to_signed 2 (le_uint bs)))"

definition read_signed_int :: "env \<Rightarrow> int reader" where
  "read_signed_int env = bindR (read_bytes env 4) (\<lambda>bs. returnR (to_signed 4 (le_uint bs)))"

definition read_unsigned_int :: "env \<Rightarrow> nat reader" where
  \<comment> \<open>\<^verbatim>\<open>struct.unpack('<I', self.read_bytes(4))[0]\<close>\<close>
  "read_unsigned_int env = bindR (read_bytes env 4) (\<lambda>bs. returnR (le_uint bs))"

definition read_unsigned_long :: "env \<Rightarrow> nat reader" where
  \<comment> \<open>\<^verbatim>\<open>struct.unpack('<Q', self.read_bytes(8))[0]\<close>\<close>
  "read_unsigned_long env = bindR (read_bytes env 8) (\<lambda>bs. returnR (le_uint bs))"

section \<open>Length prefixes (LengthCodec)\<close>

text \<open>
  \<^verbatim>\<open>read_length_with_encoding\<close> returns the triple \<^verbatim>\<open>(length, is_encoded, encoding)\<close>,
  of which it fills either the length (\<^verbatim>\<open>(n, False, None)\<close>, here \<open>Length n\<close>) or the
  encoding tag (\<^verbatim>\<open>(None, True, e)\<close>, here \<open>Encoded e\<close>).
\<close>

datatype len_enc = Length nat | Encoded nat

definition read_length_with_encoding :: "env \<Rightarrow> len_enc reader" where
  "read_length_with_encoding env =
     bindR read_byte (\<lambda>byte.
       let enc_type = drop_bit 6 (byte AND 0xC0) in
       if enc_type = 3 then returnR (Encoded (byte AND 0x3F))
       else if enc_type = 0 then returnR (Length (byte AND 0x3F))
       else if enc_type = 1 then
         bindR read_byte (\<lambda>next_byte. returnR (Length (push_bit 8 (byte AND 0x3F) OR next_byte)))
       else if enc_type = 2 then
         (let remaining = byte AND 0x3F in
          if remaining = 0 then bindR (read_unsigned_int env) (\<lambda>n. returnR (Length n))
          else if remaining = 1 then bindR (read_unsigned_long env) (\<lambda>n. returnR (Length n))
          else bindR (read_unsigned_int env) (\<lambda>n. returnR (Length n)))
       else raiseR (Unknown_length_encoding byte))"

definition read_length :: "env \<Rightarrow> nat reader" where
  "read_length env =
     bindR (read_length_with_encoding env) (\<lambda>r.
       case r of Encoded _ \<Rightarrow> raiseR Encoded_in_length | Length n \<Rightarrow> returnR n)"

definition be_uint :: "byte list \<Rightarrow> nat" where
  \<comment> \<open>the bytes as an unsigned integer, most significant byte first; the source has no
      such read: it is the reading the on-disk format prescribes for long lengths\<close>
  "be_uint bs = le_uint (rev bs)"

section \<open>Container decoders\<close>

text \<open>An element of a ziplist or listpack is a \<^verbatim>\<open>str\<close> or an \<^verbatim>\<open>int\<close>.\<close>

datatype elem = EStr pystr | EInt int

definition from_bytes_signed :: "byte list \<Rightarrow> int" where
  \<comment> \<open>\<^verbatim>\<open>int.from_bytes(bs, byteorder='little', signed=True)\<close>\<close>
  "from_bytes_signed bs = to_signed (length bs) (le_uint bs)"

subsection \<open>ziplist\<close>

text \<open>
  \<^verbatim>\<open>parse_ziplist_entry\<close> returns \<^verbatim>\<open>(value, bytes_read)\<close>, the value \<^verbatim>\<open>None\<close> when
  it gives up. \<open>ziplist_entry_value\<close> is its second half, the dispatch on the encoding
  byte, with \<open>offset\<close> already past that byte.
\<close>

definition ziplist_entry_value ::
  "env \<Rightarrow> byte list \<Rightarrow> nat \<Rightarrow> nat \<Rightarrow> error + (elem option \<times> nat)" where
  "ziplist_entry_value env data encoding offset =
     (if encoding AND 0xC0 = 0x00 then
        (let len = encoding AND 0x3F in
         if offset + len > length data then Inr (None, 0)
         else Inr (Some (EStr (decode env (slice data offset (offset + len)))), offset + len))
      else if encoding AND 0xC0 = 0x40 then
        (if offset \<ge> length data then Inr (None, 0)
         else bindE (idx data offset) (\<lambda>b.
           let len = push_bit 8 (encoding AND 0x3F) OR b; offset = offset + 1 in
           if offset + len > length data then Inr (None, 0)
           else Inr (Some (EStr (decode env (slice data offset (offset + len)))), offset + len)))
      else if encoding AND 0xC0 = 0x80 then
        (if offset + 4 > length data then Inr (None, 0)
         else bindE (unpack_u 4 (slice data offset (offset + 4))) (\<lambda>len.
           let offset = offset + 4 in
           if offset + len > length data then Inr (None, 0)
           else Inr (Some (EStr (decode env (slice data offset (offset + len)))), offset + len)))
      else if encoding = 0xC0 then
        (if offset + 2 > length data then Inr (None, 0)
         else bindE (unpack_s 2 (slice data offset (offset + 2))) (\<lambda>v.
           Inr (Some (EInt v), offset + 2)))
      else if encoding = 0xD0 then
        (if offset + 4 > length data then Inr (None, 0)
         else bindE (unpack_s 4 (slice data offset (offset + 4))) (\<lambda>v.
           Inr (Some (EInt v), offset + 4)))
      else if encoding = 0xE0 then
        (if offset + 8 > length data then Inr (None, 0)
         else bindE (unpack_s 8 (slice data offset (offset + 8))) (\<lambda>v.
           Inr (Some (EInt v), offset + 8)))
      else if encoding = 0xF0 then
        (if offset + 3 > length data then Inr (None, 0)
         else Inr (Some (EInt (from_bytes_signed (slice data offset (offset + 3)))), offset + 3))
      else if encoding = 0xFE then
        (if offset + 1 > length data then Inr (None, 0)
         else bindE (unpack_s 1 (slice data offset (offset + 1))) (\<lambda>v.
           Inr (Some (EInt v), offset + 1)))
      else if encoding AND 0xF0 = 0xF0 then
        Inr (Some (EInt (int (encoding AND 0x0F) - 1)), offset)
      else Inr (None, 1))"

definition parse_ziplist_entry :: "env \<Rightarrow> byte list \<Rightarrow> error + (elem option \<times> nat)" where
  "parse_ziplist_entry env data =
     (if length data < 2 then Inr (None, 0)
      else bindE (idx data 0) (\<lambda>prevlen.
        if prevlen = 0xFE \<and> length data < 5 then Inr (None, 0)
        else bindE (if prevlen = 0xFE then unpack_u 4 (slice data 1 5) else Inr prevlen) (\<lambda>_.
          let offset = (if prevlen = 0xFE then 5 else 1) in
          if offset \<ge> length data then Inr (None, 0)
          else bindE (idx data offset) (\<lambda>encoding.
            ziplist_entry_value env data encoding (offset + 1)))))"

text \<open>
  The loop of \<^verbatim>\<open>parse_ziplist\<close>, by the iterations left. The test
  \<^verbatim>\<open>pos >= len(data) - 1\<close> is written without the subtraction. An exception of the
  entry parser ends the loop.
\<close>

fun ziplist_loop :: "env \<Rightarrow> byte list \<Rightarrow> nat \<Rightarrow> nat \<Rightarrow> elem list \<Rightarrow> error + elem list" where
  "ziplist_loop env data 0 pos result = Inr result"
| "ziplist_loop env data (Suc n) pos result =
     (if pos + 1 \<ge> length data then Inr result
      else bindE (idx data pos) (\<lambda>b.
        if b = 0xFF then Inr result
        else (case parse_ziplist_entry env (drop pos data) of
            Inl e \<Rightarrow> Inr result
          | Inr (value, bytes_read) \<Rightarrow>
              (let result = (case value of None \<Rightarrow> result | Some v \<Rightarrow> result @ [v]) in
               if bytes_read = 0 then Inr result
               else ziplist_loop env data n (pos + bytes_read) result))))"

definition parse_ziplist :: "env \<Rightarrow> byte list \<Rightarrow> error + elem list" where
  "parse_ziplist env data =
     (if length data < 10 then Inr []
      else bindE (unpack_u 4 (slice data 0 4)) (\<lambda>zlbytes.
           bindE (unpack_u 4 (slice data 4 8)) (\<lambda>zltail.
           bindE (unpack_u 2 (slice data 8 10)) (\<lambda>zllen.
             let count = (if zllen < 65535 then zllen else 999999) in
             ziplist_loop env data count 10 []))))"

subsection \<open>listpack\<close>

text \<open>
  \<open>listpack_special_value\<close> is the branch of \<^verbatim>\<open>parse_listpack_entry\<close> for a first
  byte \<open>1111xxxx\<close>. Each \<^verbatim>\<open>backlen = data[i]\<close> of the source is an indexed read
  whose value is not used.
\<close>

definition listpack_special_value ::
  "env \<Rightarrow> byte list \<Rightarrow> nat \<Rightarrow> error + (elem option \<times> nat)" where
  "listpack_special_value env data byte =
     (let enc = byte AND 0x0F in
      if enc = 0x01 then
        (if length data < 4 then Inr (None, 0)
         else bindE (unpack_s 2 (slice data 1 3)) (\<lambda>v.
              bindE (idx data 3) (\<lambda>backlen. Inr (Some (EInt v), 4))))
      else if enc = 0x02 then
        (if length data < 5 then Inr (None, 0)
         else (let v = int (le_uint (slice data 1 4));
                   v = (if v AND 0x800000 \<noteq> 0 then v - 0x1000000 else v) in
               bindE (idx data 4) (\<lambda>backlen. Inr (Some (EInt v), 5))))
      else if enc = 0x03 then
        (if length data < 6 then Inr (None, 0)
         else bindE (unpack_s 4 (slice data 1 5)) (\<lambda>v.
              bindE (idx data 5) (\<lambda>backlen. Inr (Some (EInt v), 6))))
      else if enc = 0x04 then
        (if length data < 10 then Inr (None, 0)
         else bindE (unpack_s 8 (slice data 1 9)) (\<lambda>v.
              bindE (idx data 9) (\<lambda>backlen. Inr (Some (EInt v), 10))))
      else if enc = 0x00 then
        (if length data < 5 then Inr (None, 0)
         else bindE (unpack_u 4 (slice data 1 5)) (\<lambda>len.
           if length data < 5 + len + 1 then Inr (None, 0)
           else bindE (idx data (5 + len)) (\<lambda>backlen.
             Inr (Some (EStr (decode env (slice data 5 (5 + len)))), 5 + len + 1))))
      else Inr (None, 1))"

definition parse_listpack_entry :: "env \<Rightarrow> byte list \<Rightarrow> error + (elem option \<times> nat)" where
  "parse_listpack_entry env data =
     (if length data < 2 then Inr (None, 0)
      else bindE (idx data 0) (\<lambda>byte.
        if byte \<le> 0x7F then
          (let len = byte AND 0x7F in
           if len = 0 then
             (if length data < 2 then Inr (None, 0)
              else bindE (idx data 1) (\<lambda>backlen. Inr (Some (EStr []), 2)))
           else if length data < 1 + len + 1 then Inr (None, 0)
           else bindE (idx data (1 + len)) (\<lambda>backlen.
             Inr (Some (EStr (decode env (slice data 1 (1 + len)))), 1 + len + 1)))
        else if byte AND 0xE0 = 0xC0 then
          (let v = byte AND 0x1F in
           if length data < 2 then Inr (None, 0)
           else bindE (idx data 1) (\<lambda>backlen. Inr (Some (EInt (int v)), 2)))
        else if byte AND 0xF0 = 0xE0 then
          (if length data < 3 then Inr (None, 0)
           else bindE (idx data 1) (\<lambda>b1.
             let v = int (push_bit 8 (byte AND 0x0F) OR b1);
                 v = (if v AND 0x800 \<noteq> 0 then v - 0x1000 else v) in
             bindE (idx data 2) (\<lambda>backlen. Inr (Some (EInt v), 3))))
        else if byte AND 0xC0 = 0x80 then
          (if length data < 2 then Inr (None, 0)
           else bindE (idx data 1) (\<lambda>b1.
             let len = push_bit 8 (byte AND 0x3F) OR b1 in
             if length data < 2 + len + 1 then Inr (None, 0)
             else bindE (idx data (2 + len)) (\<lambda>backlen.
               Inr (Some (EStr (decode env (slice data 2 (2 + len)))), 2 + len + 1))))
        else if byte AND 0xF0 = 0xF0 then listpack_special_value env data byte
        else Inr (None, 1)))"

fun listpack_loop :: "env \<Rightarrow> byte list \<Rightarrow> nat \<Rightarrow> nat \<Rightarrow> elem list \<Rightarrow> elem list" where
  "listpack_loop env data 0 pos result = result"
| "listpack_loop env data (Suc n) pos result =
     (if pos + 1 \<ge> length data then result
      else (case parse_listpack_entry env (drop pos data) of
          Inl e \<Rightarrow> result
        | Inr (value, bytes_read) \<Rightarrow>
            (let result = (case value of None \<Rightarrow> result | Some v \<Rightarrow> result @ [v]) in
             if bytes_read = 0 then result
             else listpack_loop env data n (pos + bytes_read) result)))"

definition parse_listpack :: "env \<Rightarrow> byte list \<Rightarrow> error + elem list" where
  "parse_listpack env data =
     (if length data < 7 then Inr []
      else bindE (unpack_u 4 (slice data 0 4)) (\<lambda>total_bytes.
           bindE (unpack_u 2 (slice data 4 6)) (\<lambda>num_elements.
             Inr (listpack_loop env data num_elements 6 []))))"

subsection \<open>intset\<close>

text \<open>
  \<^verbatim>\<open>read_set_intset\<close> reads a raw string and decodes it in place. \<open>intset_elements\<close> is
  the part inside its \<^verbatim>\<open>try\<close>, \<open>intset_of_bytes\<close> the decoding with the length test
  before it and the bare \<^verbatim>\<open>except\<close> around it. \<^verbatim>\<open>encoding\<close> is the header's element size,
  \<open>step\<close> the source's \<^verbatim>\<open>size\<close>, by which the loop advances.
\<close>

fun intset_loop ::
  "byte list \<Rightarrow> nat \<Rightarrow> nat \<Rightarrow> nat \<Rightarrow> nat \<Rightarrow> pystr list \<Rightarrow> error + pystr list" where
  "intset_loop data encoding step 0 pos result = Inr result"
| "intset_loop data encoding step (Suc n) pos result =
     (if pos + step > length data then Inr result
      else if encoding = 2 then
        bindE (unpack_s 2 (slice data pos (pos + 2))) (\<lambda>val.
          intset_loop data encoding step n (pos + step) (result @ [str_int val]))
      else if encoding = 4 then
        bindE (unpack_s 4 (slice data pos (pos + 4))) (\<lambda>val.
          intset_loop data encoding step n (pos + step) (result @ [str_int val]))
      else if encoding = 8 then
        bindE (unpack_s 8 (slice data pos (pos + 8))) (\<lambda>val.
          intset_loop data encoding step n (pos + step) (result @ [str_int val]))
      else Inr result)"

definition intset_elements :: "byte list \<Rightarrow> error + pystr list" where
  "intset_elements data =
     bindE (unpack_u 4 (slice data 0 4)) (\<lambda>encoding.
     bindE (unpack_u 4 (slice data 4 8)) (\<lambda>len.
     bindE (if encoding < 3 then
              (if encoding < length [2, 4, 8 :: nat] then Inr ([2, 4, 8] ! encoding)
               else Inl (Index_error encoding))
            else Inr 4) (\<lambda>step.
       intset_loop data encoding step (min len 1000) 8 [])))"

definition intset_of_bytes :: "byte list \<Rightarrow> pystr list" where
  "intset_of_bytes data =
     (if length data < 8 then []
      else (case intset_elements data of Inl e \<Rightarrow> [] | Inr result \<Rightarrow> result))"

section \<open>Strings (StringCodec)\<close>

text \<open>
  A bytes object or \<^verbatim>\<open>None\<close> is a \<open>byte list option\<close>: \<^verbatim>\<open>lzf_decompress\<close> and,
  through it, \<^verbatim>\<open>read_string_raw\<close> can return \<^verbatim>\<open>None\<close>.
\<close>

definition lzf_decompress :: "env \<Rightarrow> byte list \<Rightarrow> nat \<Rightarrow> error + byte list option" where
  \<comment> \<open>without the module, the \<^verbatim>\<open>ImportError\<close> is caught and a fixed text returned\<close>
  "lzf_decompress env data expected_length =
     (case lzf env of
        None \<Rightarrow>
          Inr (Some (map of_char ''<LZF compressed data - install python-lzf to decompress>''))
      | Some decompress \<Rightarrow>
          (case decompress data expected_length of
             Lzf_bytes out \<Rightarrow> Inr (Some out)
           | Lzf_none \<Rightarrow> Inr None
           | Lzf_raises \<Rightarrow> Inl Lzf_error))"

definition read_string :: "env \<Rightarrow> pystr reader" where
  "read_string env =
     bindR (read_length_with_encoding env) (\<lambda>r.
       case r of
         Encoded encoding \<Rightarrow>
           if encoding = 0 then bindR (read_signed_byte env) (\<lambda>v. returnR (str_int v))
           else if encoding = 1 then bindR (read_signed_short env) (\<lambda>v. returnR (str_int v))
           else if encoding = 2 then bindR (read_signed_int env) (\<lambda>v. returnR (str_int v))
           else if encoding = 3 then
             bindR (read_length env) (\<lambda>compressed_len.
             bindR (read_length env) (\<lambda>uncompressed_len.
             bindR (read_bytes env compressed_len) (\<lambda>compressed_data.
               case lzf_decompress env compressed_data uncompressed_len of
                 Inr (Some uncompressed) \<Rightarrow> returnR (decode env uncompressed)
               | _ \<Rightarrow>
                   returnR (lit ''<compressed:'' @ str_nat compressed_len @ lit '' bytes>''))))
           else returnR (lit ''<parse_error_enc:'' @ str_nat encoding @ lit ''>'')
       | Length len \<Rightarrow>
           if len = 0 then returnR []
           else if len > 1024 * 1024 * 100 then
             returnR (lit ''<invalid_length:'' @ str_nat len @ lit ''>'')
           else bindR (read_bytes env len) (\<lambda>data. returnR (decode env data)))"

fun le_bytes :: "nat \<Rightarrow> nat \<Rightarrow> byte list" where
  \<comment> \<open>the \<open>n\<close> low bytes of a value, least significant first\<close>
  "le_bytes 0 v = []"
| "le_bytes (Suc n) v = of_nat (v mod 256) # le_bytes n (v div 256)"

definition pack_s :: "nat \<Rightarrow> int \<Rightarrow> byte list" where
  \<comment> \<open>\<^verbatim>\<open>struct.pack('<h' | '<i', v)\<close> for \<open>n\<close> = 2, 4, on a value of that range\<close>
  "pack_s n v = le_bytes n (nat (v mod 2 ^ (8 * n)))"

definition read_string_raw :: "env \<Rightarrow> (byte list option) reader" where
  "read_string_raw env =
     bindR (read_length_with_encoding env) (\<lambda>r.
       case r of
         Encoded encoding \<Rightarrow>
           if encoding = 0 then
             bindR (read_signed_byte env) (\<lambda>v. returnR (Some [word_of_int (v AND 0xFF)]))
           else if encoding = 1 then bindR (read_signed_short env) (\<lambda>v. returnR (Some (pack_s 2 v)))
           else if encoding = 2 then bindR (read_signed_int env) (\<lambda>v. returnR (Some (pack_s 4 v)))
           else if encoding = 3 then
             bindR (read_length env) (\<lambda>compressed_len.
             bindR (read_length env) (\<lambda>uncompressed_len.
             bindR (read_bytes env compressed_len) (\<lambda>compressed_data.
               case lzf_decompress env compressed_data uncompressed_len of
                 Inr uncompressed \<Rightarrow> returnR uncompressed
               | Inl e \<Rightarrow> returnR (Some compressed_data))))
           else returnR (Some [])
       | Length len \<Rightarrow>
           if len = 0 then returnR (Some [])
           else bindR (read_bytes env len) (\<lambda>data. returnR (Some data)))"

section \<open>Values (ValueDecoder)\<close>

text \<open>
  A score is a Python number. Floats are kept as the expression that makes them:
  \<^verbatim>\<open>float(n)\<close> of an integer, \<^verbatim>\<open>float(text)\<close> of ASCII bytes, the 8 bytes given to
  \<^verbatim>\<open>struct.unpack('<d', ...)\<close>, or one of the three special values. \<open>PInt\<close> is a Python
  \<^verbatim>\<open>int\<close>.
\<close>

datatype pynum =
    PInt int
  | PFloat_of_int int
  | PFloat_parse "byte list"
  | PFloat_unpack "byte list"
  | PFloat_inf
  | PFloat_neg_inf
  | PFloat_nan

text \<open>
  A decoded value: a \<^verbatim>\<open>str\<close>; a list (of \<^verbatim>\<open>str\<close>, or of ziplist elements as they
  are); \<^verbatim>\<open>list(set(...))\<close>, whose order Python leaves open, as the set of its elements;
  a list of member and score; a \<^verbatim>\<open>dict\<close>, in insertion order.
\<close>

datatype pyval =
    VStr pystr
  | VList "elem list"
  | VSet "pystr set"
  | VZset "(pystr \<times> pynum) list"
  | VHash "(pystr \<times> pystr) list"

fun dict_set :: "('k \<times> 'v) list \<Rightarrow> 'k \<Rightarrow> 'v \<Rightarrow> ('k \<times> 'v) list" where
  \<comment> \<open>\<^verbatim>\<open>d[k] = v\<close>: a key already there keeps its place\<close>
  "dict_set [] k v = [(k, v)]"
| "dict_set ((k', v') # d) k v =
     (if k' = k then (k, v) # d else (k', v') # dict_set d k v)"

definition str_elem :: "elem \<Rightarrow> pystr" where
  \<comment> \<open>\<^verbatim>\<open>str(e)\<close>\<close>
  "str_elem e = (case e of EStr s \<Rightarrow> s | EInt i \<Rightarrow> str_int i)"

definition read_double :: "env \<Rightarrow> pynum reader" where
  "read_double env =
     bindR read_byte (\<lambda>len.
       if len = 255 then returnR PFloat_neg_inf
       else if len = 254 then returnR PFloat_inf
       else if len = 253 then returnR PFloat_nan
       else bindR (read_bytes env len) (\<lambda>data.
         if float_parses env data then returnR (PFloat_parse data)
         else raiseR (Float_error data)))"

text \<open>
  The decoders below take what \<^verbatim>\<open>read_string_raw\<close> returned. On \<^verbatim>\<open>None\<close> the first
  \<^verbatim>\<open>len(...)\<close> raises \<^verbatim>\<open>TypeError\<close>: inside the \<^verbatim>\<open>try\<close> of the ziplist readers, which
  then return their empty result; before the \<^verbatim>\<open>try\<close> of \<^verbatim>\<open>read_set_intset\<close>; and in
  \<^verbatim>\<open>read_listpack\<close> once more inside the handler, whose message takes the length again.
\<close>

definition read_list_ziplist :: "env \<Rightarrow> (elem list) reader" where
  "read_list_ziplist env =
     bindR (read_string_raw env) (\<lambda>ziplist_bytes.
       returnR (case ziplist_bytes of
                  None \<Rightarrow> []
                | Some bs \<Rightarrow>
                    (case parse_ziplist env bs of Inl e \<Rightarrow> [] | Inr entries \<Rightarrow> entries)))"

definition read_set_intset :: "env \<Rightarrow> (pystr list) reader" where
  "read_set_intset env =
     bindR (read_string_raw env) (\<lambda>intset_bytes.
       case intset_bytes of
         None \<Rightarrow> raiseR Type_error
       | Some bs \<Rightarrow> returnR (intset_of_bytes bs))"

text \<open>
  The loops \<^verbatim>\<open>for i in range(0, len(entries), 2): if i + 1 < len(entries): ...\<close> take the
  entries two at a time and drop a last one left alone.
\<close>

fun zset_of_entries :: "elem list \<Rightarrow> (pystr \<times> pynum) list" where
  "zset_of_entries (m # s # entries) =
     (str_elem m, (case s of EInt i \<Rightarrow> PFloat_of_int i | EStr _ \<Rightarrow> PInt 0))
       # zset_of_entries entries"
| "zset_of_entries _ = []"

fun hash_of_entries :: "elem list \<Rightarrow> (pystr \<times> pystr) list \<Rightarrow> (pystr \<times> pystr) list" where
  "hash_of_entries (k # v # entries) hash_data =
     hash_of_entries entries (dict_set hash_data (str_elem k) (str_elem v))"
| "hash_of_entries _ hash_data = hash_data"

definition read_zset_ziplist :: "env \<Rightarrow> ((pystr \<times> pynum) list) reader" where
  "read_zset_ziplist env =
     bindR (read_string_raw env) (\<lambda>ziplist_bytes.
       returnR (case ziplist_bytes of
                  None \<Rightarrow> []
                | Some bs \<Rightarrow>
                    (case parse_ziplist env bs of
                       Inl e \<Rightarrow> []
                     | Inr entries \<Rightarrow> zset_of_entries entries)))"

definition read_hash_ziplist :: "env \<Rightarrow> ((pystr \<times> pystr) list) reader" where
  "read_hash_ziplist env =
     bindR (read_string_raw env) (\<lambda>ziplist_bytes.
       returnR (case ziplist_bytes of
                  None \<Rightarrow> []
                | Some bs \<Rightarrow>
                    (case parse_ziplist env bs of
                       Inl e \<Rightarrow> []
                     | Inr entries \<Rightarrow> hash_of_entries entries [])))"

definition read_listpack :: "env \<Rightarrow> (elem list) reader" where
  "read_listpack env =
     bindR (read_string_raw env) (\<lambda>listpack_bytes.
       case listpack_bytes of
         None \<Rightarrow> raiseR Type_error
       | Some bs \<Rightarrow>
           returnR (case parse_listpack env bs of Inl e \<Rightarrow> [] | Inr entries \<Rightarrow> entries))"

text \<open>
  \<^verbatim>\<open>read_listpack\<close> returns a list, so the \<^verbatim>\<open>isinstance(entries, str)\<close> branches of its
  three callers are never taken.
\<close>

definition read_hash_listpack :: "env \<Rightarrow> ((pystr \<times> pystr) list) reader" where
  "read_hash_listpack env =
     bindR (read_listpack env) (\<lambda>entries. returnR (hash_of_entries entries []))"

definition read_zset_listpack :: "env \<Rightarrow> ((pystr \<times> pynum) list) reader" where
  "read_zset_listpack env =
     bindR (read_listpack env) (\<lambda>entries. returnR (zset_of_entries entries))"

definition read_set_listpack :: "env \<Rightarrow> (pystr list) reader" where
  "read_set_listpack env =
     bindR (read_listpack env) (\<lambda>entries. returnR (map str_elem entries))"

fun quicklist_loop :: "env \<Rightarrow> nat \<Rightarrow> elem list \<Rightarrow> (elem list) reader" where
  "quicklist_loop env 0 result = returnR result"
| "quicklist_loop env (Suc n) result =
     bindR (read_string_raw env) (\<lambda>ziplist_bytes.
       case ziplist_bytes of
         None \<Rightarrow> quicklist_loop env n result
       | Some bs \<Rightarrow>
           (case parse_ziplist env bs of
              Inl e \<Rightarrow> quicklist_loop env n result
            | Inr entries \<Rightarrow> quicklist_loop env n (result @ entries)))"

definition read_quicklist :: "env \<Rightarrow> (elem list) reader" where
  "read_quicklist env = bindR (read_length env) (\<lambda>n. quicklist_loop env n [])"

definition read_stream :: "env \<Rightarrow> pystr reader" where
  "read_stream env =
     bindR (read_length env) (\<lambda>num_elements.
       returnR (lit ''<stream with '' @ str_nat num_elements @ lit '' elements>''))"

fun read_n :: "nat \<Rightarrow> 'a reader \<Rightarrow> ('a list) reader" where
  \<comment> \<open>\<^verbatim>\<open>[m() for _ in range(n)]\<close>: an exception ends it and loses the list\<close>
  "read_n 0 m = returnR []"
| "read_n (Suc n) m = bindR m (\<lambda>x. bindR (read_n n m) (\<lambda>xs. returnR (x # xs)))"

definition read_value :: "env \<Rightarrow> nat \<Rightarrow> pyval reader" where
  "read_value env value_type =
     (if value_type = 0 then bindR (read_string env) (\<lambda>s. returnR (VStr s))
      else if value_type = 1 then
        bindR (read_length env) (\<lambda>n.
        bindR (read_n n (read_string env)) (\<lambda>xs. returnR (VList (map EStr xs))))
      else if value_type = 2 then
        bindR (read_length env) (\<lambda>n.
        bindR (read_n n (read_string env)) (\<lambda>xs. returnR (VSet (set xs))))
      else if value_type = 3 \<or> value_type = 5 then
        bindR (read_length env) (\<lambda>n.
        bindR (read_n n
                (bindR (read_string env) (\<lambda>member.
                 bindR (if value_type = 3 then read_double env
                        else bindR (read_bytes env 8) (\<lambda>bs. returnR (PFloat_unpack bs)))
                   (\<lambda>score. returnR (member, score)))))
          (\<lambda>zset_data. returnR (VZset zset_data)))
      else if value_type = 4 then
        bindR (read_length env) (\<lambda>n.
        bindR (read_n n
                (bindR (read_string env) (\<lambda>key.
                 bindR (read_string env) (\<lambda>v. returnR (key, v)))))
          (\<lambda>kvs. returnR (VHash (fold (\<lambda>(key, v) hash_data. dict_set hash_data key v) kvs []))))
      else if value_type = 9 then
        bindR (read_string env) (\<lambda>zipmap.
          returnR (VHash [(lit ''<zipmap:'' @ str_nat (length zipmap) @ lit '' bytes>'', [])]))
      else if value_type = 10 then bindR (read_list_ziplist env) (\<lambda>xs. returnR (VList xs))
      else if value_type = 11 then
        bindR (read_set_intset env) (\<lambda>xs. returnR (VList (map EStr xs)))
      else if value_type = 12 then bindR (read_zset_ziplist env) (\<lambda>z. returnR (VZset z))
      else if value_type = 13 then bindR (read_hash_ziplist env) (\<lambda>h. returnR (VHash h))
      else if value_type = 14 \<or> value_type = 18 then
        bindR (read_quicklist env) (\<lambda>xs. returnR (VList xs))
      else if value_type = 16 \<or> value_type = 17 \<or> value_type = 20 then
        (if value_type = 16 then bindR (read_hash_listpack env) (\<lambda>h. returnR (VHash h))
         else if value_type = 17 then bindR (read_zset_listpack env) (\<lambda>z. returnR (VZset z))
         else bindR (read_set_listpack env) (\<lambda>xs. returnR (VList (map EStr xs))))
      else if value_type = 15 \<or> value_type = 19 \<or> value_type = 21 then
        bindR (read_stream env) (\<lambda>s. returnR (VStr s))
      else
        (\<lambda>f. case read_string env f of
                (Inl e, f') \<Rightarrow> (Inr (VStr (lit ''<unknown type '' @ str_nat value_type @ lit ''>'')), f')
              | (Inr s, f') \<Rightarrow> (Inr (VStr s), f')))"

definition get_type_name :: "nat \<Rightarrow> pystr" where
  "get_type_name value_type =
     (if value_type = 0 then lit ''string''
      else if value_type \<in> {1, 10, 14, 18} then lit ''list''
      else if value_type \<in> {2, 11, 20} then lit ''set''
      else if value_type \<in> {3, 5, 12, 17} then lit ''zset''
      else if value_type \<in> {4, 9, 13, 16} then lit ''hash''
      else if value_type \<in> {15, 19, 21} then lit ''stream''
      else lit ''unknown_type_'' @ str_nat value_type)"

section \<open>The record stream (RecordStream) and the output (SnapshotAssembler)\<close>

text \<open>
  What \<^verbatim>\<open>self.data\<close> (\<open>self_data\<close>) holds for a key: the value alone in simple format; in full
  format the value, the type name and the metadata that was set (the source's
  \<^verbatim>\<open>expiry_date\<close> is computed from \<^verbatim>\<open>expiry_ms\<close> and present with it); or, when reading
  the value raised, the exception and the type name.
\<close>

record full_entry =
  entry_value :: pyval
  entry_type :: pystr
  entry_expiry_ms :: "nat option"
  entry_idle :: "nat option"
  entry_freq :: "nat option"

datatype entry =
    Simple pyval
  | Full full_entry
  | Failed error pystr

text \<open>
  The state of the loop in \<^verbatim>\<open>parse\<close>: the open file \<^verbatim>\<open>self.file\<close> (\<open>infile\<close>), the parser's three attributes and
  the three local variables of pending metadata.
\<close>

record pstate =
  infile :: "byte list"
  self_data :: "(pystr \<times> entry) list"
  aux_data :: "(pystr \<times> pystr) list"
  current_db :: nat
  expiry :: "nat option"
  idle :: "nat option"
  freq :: "nat option"

definition startswith :: "pystr \<Rightarrow> pystr \<Rightarrow> bool" where
  "startswith s prefix = (take (length prefix) s = prefix)"

definition invalid_key :: "pystr \<Rightarrow> bool" where
  \<comment> \<open>the test under \<^verbatim>\<open># Skip invalid keys\<close>\<close>
  "invalid_key key =
     (key = [] \<or> startswith key (lit ''<unknown'') \<or> startswith key (lit ''<binary'')
      \<or> startswith key (lit ''<parse_error'') \<or> startswith key (lit ''<invalid''))"

definition store_value :: "env \<Rightarrow> bool \<Rightarrow> nat \<Rightarrow> pystr \<Rightarrow> pyval \<Rightarrow> pstate \<Rightarrow> pstate" where
  \<comment> \<open>the \<^verbatim>\<open>try\<close> block after \<^verbatim>\<open>read_value\<close> has returned, with its \<^verbatim>\<open>except\<close>:
      \<^verbatim>\<open>datetime.fromtimestamp\<close> is the one call there that can raise\<close>
  "store_value env simple_format value_type key v st =
     (if simple_format then
        st\<lparr>self_data := dict_set (self_data st) key (Simple v),
           expiry := None, idle := None, freq := None\<rparr>
      else
        (case expiry st of
           Some ms \<Rightarrow>
             if ms \<noteq> 0 \<and> \<not> timestamp_ok env ms then
               st\<lparr>self_data := dict_set (self_data st) key
                      (Failed (Timestamp_error ms) (get_type_name value_type))\<rparr>
             else
               st\<lparr>self_data := dict_set (self_data st) key
                      (Full \<lparr>entry_value = v, entry_type = get_type_name value_type,
                             entry_expiry_ms = (if ms \<noteq> 0 then Some ms else None),
                             entry_idle = idle st, entry_freq = freq st\<rparr>),
                  expiry := None, idle := None, freq := None\<rparr>
         | None \<Rightarrow>
             st\<lparr>self_data := dict_set (self_data st) key
                    (Full \<lparr>entry_value = v, entry_type = get_type_name value_type,
                           entry_expiry_ms = None,
                           entry_idle = idle st, entry_freq = freq st\<rparr>),
                expiry := None, idle := None, freq := None\<rparr>))"

definition read_entry :: "env \<Rightarrow> bool \<Rightarrow> nat \<Rightarrow> byte list \<Rightarrow> pstate \<Rightarrow> pstate" where
  \<comment> \<open>the \<^verbatim>\<open>else\<close> branch of the loop, for a value type opcode; it always ends in going
      round the loop again\<close>
  "read_entry env simple_format value_type f st =
     (case read_string env f of
        (Inl e, f') \<Rightarrow> st\<lparr>infile := f'\<rparr>
      | (Inr key, f') \<Rightarrow>
          if invalid_key key then st\<lparr>infile := snd (read_value env value_type f')\<rparr>
          else
            (case read_value env value_type f' of
               (Inl e, f'') \<Rightarrow>
                 if simple_format then st\<lparr>infile := f''\<rparr>
                 else st\<lparr>infile := f'',
                         self_data := dict_set (self_data st) key (Failed e (get_type_name value_type))\<rparr>
             | (Inr v, f'') \<Rightarrow>
                 store_value env simple_format value_type key v (st\<lparr>infile := f''\<rparr>)))"

text \<open>
  One round of \<^verbatim>\<open>while True\<close>. The result says whether the loop goes on (\<open>True\<close>) or
  was left by \<^verbatim>\<open>break\<close>; both handlers of the outer \<^verbatim>\<open>try\<close> break.
\<close>

definition parse_step :: "env \<Rightarrow> bool \<Rightarrow> pstate \<Rightarrow> bool \<times> pstate" where
  "parse_step env simple_format st =
     (case read_byte (infile st) of
        (Inl e, f) \<Rightarrow> (False, st\<lparr>infile := f\<rparr>)
      | (Inr opcode, f) \<Rightarrow>
          if opcode = 0xFF then (False, st\<lparr>infile := snd (read_bytes env 8 f)\<rparr>)
          else if opcode = 0xFE then
            (case read_length env f of
               (Inl e, f') \<Rightarrow> (False, st\<lparr>infile := f'\<rparr>)
             | (Inr n, f') \<Rightarrow> (True, st\<lparr>infile := f', current_db := n\<rparr>))
          else if opcode = 0xFA then
            (case bindR (read_string env) (\<lambda>key.
                   bindR (read_string env) (\<lambda>v. returnR (key, v))) f of
               (Inl e, f') \<Rightarrow> (False, st\<lparr>infile := f'\<rparr>)
             | (Inr (key, v), f') \<Rightarrow>
                 (True, st\<lparr>infile := f', aux_data := dict_set (aux_data st) key v\<rparr>))
          else if opcode = 0xFB then
            (case bindR (read_length env) (\<lambda>db_size.
                   bindR (read_length env) (\<lambda>expires_size. returnR (db_size, expires_size))) f of
               (Inl e, f') \<Rightarrow> (False, st\<lparr>infile := f'\<rparr>)
             | (Inr _, f') \<Rightarrow> (True, st\<lparr>infile := f'\<rparr>))
          else if opcode = 0xFC then
            (case read_unsigned_long env f of
               (Inl e, f') \<Rightarrow> (False, st\<lparr>infile := f'\<rparr>)
             | (Inr n, f') \<Rightarrow> (True, st\<lparr>infile := f', expiry := Some n\<rparr>))
          else if opcode = 0xFD then
            (case read_unsigned_int env f of
               (Inl e, f') \<Rightarrow> (False, st\<lparr>infile := f'\<rparr>)
             | (Inr n, f') \<Rightarrow> (True, st\<lparr>infile := f', expiry := Some (n * 1000)\<rparr>))
          else if opcode = 0xF8 then
            (case read_length env f of
               (Inl e, f') \<Rightarrow> (False, st\<lparr>infile := f'\<rparr>)
             | (Inr n, f') \<Rightarrow> (True, st\<lparr>infile := f', idle := Some n\<rparr>))
          else if opcode = 0xF9 then
            (case read_byte f of
               (Inl e, f') \<Rightarrow> (False, st\<lparr>infile := f'\<rparr>)
             | (Inr n, f') \<Rightarrow> (True, st\<lparr>infile := f', freq := Some n\<rparr>))
          else (True, read_entry env simple_format opcode f st))"

subsection \<open>The cursor only moves forward\<close>

text \<open>
  No read gives bytes back to the file, and a round of the loop that goes on has read at
  least its opcode byte. This is why the loop ends on every file.
\<close>

definition forward :: "'a reader \<Rightarrow> bool" where
  "forward m = (\<forall>f. length (snd (m f)) \<le> length f)"

named_theorems forward_intros

lemma forwardD: "forward m \<Longrightarrow> m f = (r, f') \<Longrightarrow> length f' \<le> length f"
  unfolding forward_def by (metis snd_conv)

lemma forward_returnR [forward_intros]: "forward (returnR x)"
  by (simp add: forward_def returnR_def)

lemma forward_raiseR [forward_intros]: "forward (raiseR e)"
  by (simp add: forward_def raiseR_def)

lemma forward_bindR [forward_intros]:
  assumes "forward m" and "\<And>x. forward (k x)"
  shows "forward (bindR m k)"
  unfolding forward_def
proof
  fix f
  obtain r f' where m: "m f = (r, f')" by (cases "m f")
  have le: "length f' \<le> length f" using forwardD [OF assms(1) m] .
  show "length (snd (bindR m k f)) \<le> length f"
  proof (cases r)
    case (Inl e)
    then show ?thesis using m le by (simp add: bindR_def)
  next
    case (Inr x)
    have "length (snd (k x f')) \<le> length f'" using assms(2) [of x] by (simp add: forward_def)
    then show ?thesis using m le Inr by (simp add: bindR_def)
  qed
qed

lemma forward_if [forward_intros]:
  "(c \<Longrightarrow> forward a) \<Longrightarrow> (\<not> c \<Longrightarrow> forward b) \<Longrightarrow> forward (if c then a else b)"
  by simp

lemma forward_read_byte [forward_intros]: "forward read_byte"
  by (simp add: forward_def read_byte_def split: list.split)

lemma forward_read_bytes [forward_intros]: "forward (read_bytes env n)"
  by (simp add: forward_def read_bytes_def Let_def)

lemma forward_read_signed_byte [forward_intros]: "forward (read_signed_byte env)"
  unfolding read_signed_byte_def by (intro forward_intros)

lemma forward_read_signed_short [forward_intros]: "forward (read_signed_short env)"
  unfolding read_signed_short_def by (intro forward_intros)

lemma forward_read_signed_int [forward_intros]: "forward (read_signed_int env)"
  unfolding read_signed_int_def by (intro forward_intros)

lemma forward_read_unsigned_int [forward_intros]: "forward (read_unsigned_int env)"
  unfolding read_unsigned_int_def by (intro forward_intros)

lemma forward_read_unsigned_long [forward_intros]: "forward (read_unsigned_long env)"
  unfolding read_unsigned_long_def by (intro forward_intros)

lemma forward_read_length_with_encoding [forward_intros]: "forward (read_length_with_encoding env)"
  unfolding read_length_with_encoding_def Let_def by (intro forward_intros)

lemma forward_read_length [forward_intros]: "forward (read_length env)"
  unfolding read_length_def by (intro forward_intros) (simp add: forward_intros split: len_enc.split)

lemma forward_read_string [forward_intros]: "forward (read_string env)"
  unfolding read_string_def
  by (intro forward_intros)
     (auto intro!: forward_intros split: len_enc.split sum.split option.split)

lemma forward_read_string_raw [forward_intros]: "forward (read_string_raw env)"
  unfolding read_string_raw_def
  by (intro forward_intros)
     (auto intro!: forward_intros split: len_enc.split sum.split option.split)

lemma forward_case_option [forward_intros]:
  "forward a \<Longrightarrow> (\<And>x. forward (b x)) \<Longrightarrow> forward (case_option a b v)"
  by (cases v) simp_all

lemma forward_read_double [forward_intros]: "forward (read_double env)"
  unfolding read_double_def by (intro forward_intros)

lemma forward_read_n [forward_intros]: "forward m \<Longrightarrow> forward (read_n n m)"
  by (induction n) (auto intro!: forward_intros)

lemma forward_quicklist_loop [forward_intros]: "forward (quicklist_loop env n result)"
  by (induction n arbitrary: result)
     (auto intro!: forward_intros split: sum.split option.split)

lemma forward_read_value [forward_intros]: "forward (read_value env value_type)"
proof -
  have last: "forward (\<lambda>f. case read_string env f of
                (Inl e, f') \<Rightarrow> (Inr (VStr (lit ''<unknown type '' @ str_nat value_type @ lit ''>'')), f')
              | (Inr s, f') \<Rightarrow> (Inr (VStr s), f'))"
    using forward_read_string [of env]
    by (auto simp: forward_def split: prod.split sum.split) (metis snd_conv)+
  show ?thesis
    unfolding read_value_def read_list_ziplist_def read_set_intset_def read_zset_ziplist_def
      read_hash_ziplist_def read_listpack_def read_hash_listpack_def read_zset_listpack_def
      read_set_listpack_def read_quicklist_def read_stream_def
    by (intro forward_intros last)
qed


lemma infile_store_value [simp]:
  "infile (store_value env simple_format value_type key v st) = infile st"
  by (simp add: store_value_def split: option.split)

lemma read_entry_forward:
  "length (infile (read_entry env simple_format value_type f st)) \<le> length f"
proof -
  obtain r f' where k: "read_string env f = (r, f')" by (cases "read_string env f")
  have le1: "length f' \<le> length f" using forwardD [OF forward_read_string k] .
  obtain r2 f2 where v: "read_value env value_type f' = (r2, f2)"
    by (cases "read_value env value_type f'")
  have le2: "length f2 \<le> length f'" using forwardD [OF forward_read_value v] .
  show ?thesis using k v le1 le2
    by (simp add: read_entry_def split: sum.split)
qed

lemma parse_step_consumes:
  assumes "parse_step env simple_format st = (True, st')"
  shows "length (infile st') < length (infile st)"
proof (cases "infile st")
  case Nil
  then show ?thesis using assms by (simp add: parse_step_def read_byte_def)
next
  case (Cons b f)
  have rb: "read_byte (infile st) = (Inr (unat b), f)" using Cons by (simp add: read_byte_def)
  have fw: "\<And>m r f'. forward m \<Longrightarrow> m f = (r, f') \<Longrightarrow> length f' < length (infile st)"
    using Cons forwardD by fastforce
  note fws = fw [OF forward_read_length] fw [OF forward_read_unsigned_long]
    fw [OF forward_read_unsigned_int] fw [OF forward_read_byte]
    fw [OF forward_bindR [OF forward_read_string forward_bindR [OF forward_read_string forward_returnR]]]
    fw [OF forward_bindR [OF forward_read_length forward_bindR [OF forward_read_length forward_returnR]]]
  have re: "length (infile (read_entry env simple_format (unat b) f st)) < length (infile st)"
    using read_entry_forward [of env simple_format "unat b" f st] Cons by simp
  show ?thesis using assms rb re
    by (auto simp: parse_step_def split: if_splits prod.splits sum.splits dest: fws)
qed

function parse_loop :: "env \<Rightarrow> bool \<Rightarrow> pstate \<Rightarrow> pstate" where
  "parse_loop env simple_format st =
     (case parse_step env simple_format st of
        (True, st') \<Rightarrow> parse_loop env simple_format st'
      | (False, st') \<Rightarrow> st')"
  by pat_completeness auto
termination
  by (relation "measure (\<lambda>(env, simple_format, st). length (infile st))")
     (auto dest: parse_step_consumes [OF sym])

declare parse_loop.simps [simp del]

text \<open>
  The dictionary \<^verbatim>\<open>parse\<close> returns. \<^verbatim>\<open>parse\<close> takes the contents of the file it opens;
  an exception that leaves it is the result \<open>Inl\<close>.
\<close>

record snapshot =
  rdb_version :: pystr
  aux :: "(pystr \<times> pystr) list"
  db :: nat
  keys :: "(pystr \<times> entry) list"

definition parse :: "env \<Rightarrow> bool \<Rightarrow> byte list \<Rightarrow> error + snapshot" where
  "parse env simple_format contents =
     (case read_bytes env 5 contents of
        (Inl e, f) \<Rightarrow> Inl e
      | (Inr magic, f) \<Rightarrow>
          if magic \<noteq> map of_char ''REDIS'' then Inl (Bad_magic magic)
          else
            (case read_bytes env 4 f of
               (Inl e, f') \<Rightarrow> Inl e
             | (Inr version, f') \<Rightarrow>
                 if \<not> list_all (\<lambda>b. b < 0x80) version then Inl (Version_not_ascii version)
                 else
                   (let st = parse_loop env simple_format
                               \<lparr>infile = f', self_data = [], aux_data = [], current_db = 0,
                                expiry = None, idle = None, freq = None\<rparr>
                    in Inr \<lparr>rdb_version = map unat version, aux = aux_data st,
                            db = current_db st, keys = self_data st\<rparr>)))"

section \<open>Running the model on concrete bytes\<close>

text \<open>
  The loops are defined by the number of rounds left; these equations unfold one round at
  a numeral count. \<open>plain_env\<close> is the environment of the examples: no \<^verbatim>\<open>lzf\<close>
  module, timestamps accepted up to the year 9999, and memory for every read. The examples hold ASCII bytes only,
  so none of them consults the decoder for other buffers.
\<close>

lemmas reader_defs = bindR_def returnR_def raiseR_def read_byte_def read_bytes_def
  read_signed_byte_def read_signed_short_def read_signed_int_def read_unsigned_int_def
  read_unsigned_long_def read_length_with_encoding_def read_length_def

lemmas buffer_defs = bindE_def idx_def slice_def unpack_u_def unpack_s_def to_signed_def
  from_bytes_signed_def decode_def

lemma ziplist_loop_unfold:
  "0 < n \<Longrightarrow> ziplist_loop env data n pos result =
     (if pos + 1 \<ge> length data then Inr result
      else bindE (idx data pos) (\<lambda>b.
        if b = 0xFF then Inr result
        else (case parse_ziplist_entry env (drop pos data) of
            Inl e \<Rightarrow> Inr result
          | Inr (value, bytes_read) \<Rightarrow>
              (let result = (case value of None \<Rightarrow> result | Some v \<Rightarrow> result @ [v]) in
               if bytes_read = 0 then Inr result
               else ziplist_loop env data (n - 1) (pos + bytes_read) result))))"
proof -
  assume "0 < n"
  then obtain m where n: "n = Suc m" by (cases n) auto
  show ?thesis unfolding n diff_Suc_1 ziplist_loop.simps ..
qed

lemma listpack_loop_unfold:
  "0 < n \<Longrightarrow> listpack_loop env data n pos result =
     (if pos + 1 \<ge> length data then result
      else (case parse_listpack_entry env (drop pos data) of
          Inl e \<Rightarrow> result
        | Inr (value, bytes_read) \<Rightarrow>
            (let result = (case value of None \<Rightarrow> result | Some v \<Rightarrow> result @ [v]) in
             if bytes_read = 0 then result
             else listpack_loop env data (n - 1) (pos + bytes_read) result)))"
proof -
  assume "0 < n"
  then obtain m where n: "n = Suc m" by (cases n) auto
  show ?thesis unfolding n diff_Suc_1 listpack_loop.simps ..
qed

lemma intset_loop_unfold:
  "0 < n \<Longrightarrow> intset_loop data encoding step n pos result =
     (if pos + step > length data then Inr result
      else if encoding = 2 then
        bindE (unpack_s 2 (slice data pos (pos + 2))) (\<lambda>val.
          intset_loop data encoding step (n - 1) (pos + step) (result @ [str_int val]))
      else if encoding = 4 then
        bindE (unpack_s 4 (slice data pos (pos + 4))) (\<lambda>val.
          intset_loop data encoding step (n - 1) (pos + step) (result @ [str_int val]))
      else if encoding = 8 then
        bindE (unpack_s 8 (slice data pos (pos + 8))) (\<lambda>val.
          intset_loop data encoding step (n - 1) (pos + step) (result @ [str_int val]))
      else Inr result)"
proof -
  assume "0 < n"
  then obtain m where n: "n = Suc m" by (cases n) auto
  show ?thesis unfolding n diff_Suc_1 intset_loop.simps ..
qed

lemma read_n_unfold:
  "0 < n \<Longrightarrow>
   read_n n m = bindR m (\<lambda>x. bindR (read_n (n - 1) m) (\<lambda>xs. returnR (x # xs)))"
proof -
  assume "0 < n"
  then obtain k where n: "n = Suc k" by (cases n) auto
  show ?thesis unfolding n diff_Suc_1 read_n.simps ..
qed

definition plain_env :: env where
  "plain_env =
     \<lparr>utf8_replace = (\<lambda>_. [0xFFFD]), lzf = None, float_parses = (\<lambda>_. False),
      timestamp_ok = (\<lambda>ms. ms < 253402300800000), out_of_memory = (\<lambda>_. False)\<rparr>"

lemma map_of_dict_set: "map_of (dict_set d k v) = (map_of d)(k \<mapsto> v)"
  by (induction d) auto


lemma parse_step_value_type:
  "infile st = b # f \<Longrightarrow> unat b < 0xF8 \<Longrightarrow>
   parse_step env simple_format st = (True, read_entry env simple_format (unat b) f st)"
  by (simp add: parse_step_def read_byte_def)

text \<open>
  Two files the model reads as the parser does. The first is the smallest of the usual
  shape, in full mode: an auxiliary field, a database selector, one string, the end marker
  and a checksum. The second, in simple mode, has an expiry and a list of two strings, the
  second of them stored as the 8-bit integer -1, and stops after the end marker.
\<close>

lemma parse_minimal_string_file:
  "parse plain_env False
     (map of_char ''REDIS0011''
        @ [0xFA, 0x09] @ map of_char ''redis-ver'' @ [0x05] @ map of_char ''7.2.0''
        @ [0xFE, 0x00]
        @ [0x00, 0x03] @ map of_char ''key'' @ [0x05] @ map of_char ''hello''
        @ [0xFF, 0, 0, 0, 0, 0, 0, 0, 0])
   = Inr \<lparr>rdb_version = lit ''0011'', aux = [(lit ''redis-ver'', lit ''7.2.0'')], db = 0,
          keys = [(lit ''key'',
                   Full \<lparr>entry_value = VStr (lit ''hello''), entry_type = lit ''string'',
                         entry_expiry_ms = None, entry_idle = None, entry_freq = None\<rparr>)]\<rparr>"
  by (simp add: parse_def parse_loop.simps parse_step_def read_entry_def read_string_def
      reader_defs decode_def invalid_key_def startswith_def lit_def read_value_def
      get_type_name_def store_value_def plain_env_def)

lemma parse_list_file_simple:
  "parse plain_env True
     (map of_char ''REDIS0011''
        @ [0xFC, 0x00, 0x68, 0xE5, 0xCF, 0x8B, 0x01, 0, 0]
        @ [0x01, 0x01, 0x6C,  0x02,  0x01, 0x61,  0xC0, 0xFF]
        @ [0xFF])
   = Inr \<lparr>rdb_version = lit ''0011'', aux = [], db = 0,
          keys = [(lit ''l'', Simple (VList [EStr (lit ''a''), EStr (lit ''-1'')]))]\<rparr>"
  by (simp add: parse_def parse_loop.simps parse_step_def read_entry_def read_string_def
      reader_defs decode_def invalid_key_def startswith_def lit_def read_value_def
      get_type_name_def store_value_def plain_env_def read_n_unfold str_int_def
      str_nat.simps to_signed_def)

section \<open>Length prefixes: endianness of the 32-bit and 64-bit payloads\<close>

text \<open>
  C4. The claim: after a first byte \<open>0x80\<close> the decoded length is the next 4 bytes read
  big-endian, and after \<open>0x81\<close> the next 8 bytes read big-endian. The code reads both
  payloads with \<^verbatim>\<open>'<I'\<close> and \<^verbatim>\<open>'<Q'\<close>, least significant byte first, whatever the
  bytes are: the payload \<open>00 00 00 01\<close>, which is the length 1 written big-endian, is
  decoded as 16777216.
\<close>

theorem read_length_with_encoding_little_endian:
  "read_length_with_encoding env (0x80 # b0 # b1 # b2 # b3 # f)
     = (Inr (Length (le_uint [b0, b1, b2, b3])), f)
   \<and> read_length_with_encoding env (0x81 # b0 # b1 # b2 # b3 # b4 # b5 # b6 # b7 # f)
     = (Inr (Length (le_uint [b0, b1, b2, b3, b4, b5, b6, b7])), f)
   \<and> read_length_with_encoding env [0x80, 0, 0, 0, 1] = (Inr (Length 16777216), [])
   \<and> be_uint [0, 0, 0, 1] = 1"
  by (simp add: reader_defs be_uint_def)

section \<open>ziplist: the 32-bit string length\<close>

text \<open>
  C1. The claim: a well-formed ziplist decodes to the values it was built from, the 4-byte
  length after an encoding byte \<open>10xxxxxx\<close> being big-endian. The code reads that length
  with \<^verbatim>\<open>'<I'\<close>. The first ziplist below holds one entry, a string of 16384 bytes, the
  shortest that needs the 32-bit encoding, with its length written big-endian
  (\<open>80 00 00 40 00\<close>): the code takes the length for 4194304, gives the entry up and
  returns the empty list. So it does on the second, the string \<open>a\<close> under the same
  encoding (\<open>80 00 00 00 01\<close>); with that length written little-endian the string is
  decoded.
\<close>

theorem parse_ziplist_32bit_length_little_endian:
  "parse_ziplist env
     ([0x11, 0x40, 0, 0,  0x0A, 0, 0, 0,  1, 0,  0x00, 0x80, 0, 0, 0x40, 0]
        @ replicate 16384 0x61 @ [0xFF]) = Inr []
   \<and> be_uint [0, 0, 0x40, 0] = 16384
   \<and> parse_ziplist env
     [0x12, 0, 0, 0,  0x0A, 0, 0, 0,  1, 0,  0x00, 0x80, 0, 0, 0, 1, 0x61,  0xFF] = Inr []
   \<and> parse_ziplist env
     [0x12, 0, 0, 0,  0x0A, 0, 0, 0,  1, 0,  0x00, 0x80, 1, 0, 0, 0, 0x61,  0xFF]
       = Inr [EStr (lit ''a'')]"
  by (simp add: parse_ziplist_def parse_ziplist_entry_def ziplist_entry_value_def buffer_defs
      ziplist_loop_unfold lit_def be_uint_def)

section \<open>listpack: entries longer than 127 bytes\<close>

text \<open>
  C5. The claim: a well-formed listpack decodes to the values it was built from, also when
  an entry is longer than 127 bytes and its backlen takes more than one byte. The code
  steps over one backlen byte after every entry. The first listpack below holds a string
  of 127 bytes (an entry of 128 bytes, backlen \<open>01 80\<close>) and the integer 5: the code
  reads the second backlen byte as the start of the next entry and returns the string
  alone. With a string of 126 bytes the backlen is one byte and both values come back.
\<close>

theorem parse_listpack_single_byte_backlen:
  "parse_listpack env
     ([0x8B, 0, 0, 0,  2, 0] @ [0x7F] @ replicate 127 0x61 @ [0x01, 0x80,  0xC5, 0x01,  0xFF])
     = Inr [EStr (replicate 127 97)]
   \<and> parse_listpack env
     ([0x89, 0, 0, 0,  2, 0] @ [0x7E] @ replicate 126 0x61 @ [0x7F,  0xC5, 0x01,  0xFF])
     = Inr [EStr (replicate 126 97), EInt 5]"
  by (simp add: parse_listpack_def parse_listpack_entry_def listpack_special_value_def
      buffer_defs listpack_loop_unfold list_all_iff)

section \<open>intset: the element width\<close>

text \<open>
  C2. The claim: an intset of 2-, 4- or 8-byte elements decodes to its integers as decimal
  strings; the one of width 2 with the values -1, 2, 30000 gives \<open>["-1","2","30000"]\<close>.
  The code takes its step from \<^verbatim>\<open>[2, 4, 8][encoding] if encoding < 3 else 4\<close>, which for
  the width 2 is the list's third item, 8: the first test \<^verbatim>\<open>pos + size > len\<close> already
  fails on the 14 bytes of that intset and the result is empty. The file bytes are the
  length prefix \<open>0E\<close> and the intset. The same values at width 4 are decoded.
\<close>

theorem read_set_intset_width_2_empty:
  "read_set_intset env
     [0x0E,  2, 0, 0, 0,  3, 0, 0, 0,  0xFF, 0xFF,  0x02, 0x00,  0x30, 0x75] = (Inr [], [])
   \<and> read_set_intset env
     [0x14,  4, 0, 0, 0,  3, 0, 0, 0,  0xFF, 0xFF, 0xFF, 0xFF,  2, 0, 0, 0,  0x30, 0x75, 0, 0]
     = (Inr [lit ''-1'', lit ''2'', lit ''30000''], [])"
  by (simp add: read_set_intset_def read_string_raw_def reader_defs intset_of_bytes_def
      intset_elements_def buffer_defs intset_loop_unfold str_int_def str_nat.simps lit_def)

section \<open>The container decoders and the end of their buffer\<close>

lemma ziplist_entry_value_in_bounds:
  "offset \<le> length data \<Longrightarrow> 2 \<le> length data \<Longrightarrow>
   (case ziplist_entry_value env data encoding offset of
      Inl e \<Rightarrow> False | Inr (v, n) \<Rightarrow> n \<le> length data)"
  by (auto simp: ziplist_entry_value_def bindE_def idx_def slice_def unpack_u_def unpack_s_def
        Let_def)

lemma parse_ziplist_entry_in_bounds:
  "(case parse_ziplist_entry env data of Inl e \<Rightarrow> False | Inr (v, n) \<Rightarrow> n \<le> length data)"
  by (auto simp: parse_ziplist_entry_def bindE_def idx_def slice_def unpack_u_def Let_def
        intro!: ziplist_entry_value_in_bounds)

lemma listpack_special_value_in_bounds:
  "2 \<le> length data \<Longrightarrow>
   (case listpack_special_value env data byte of
      Inl e \<Rightarrow> False | Inr (v, n) \<Rightarrow> n \<le> length data)"
  by (auto simp: listpack_special_value_def bindE_def idx_def slice_def unpack_u_def
        unpack_s_def Let_def)

lemma parse_listpack_entry_in_bounds:
  "(case parse_listpack_entry env data of Inl e \<Rightarrow> False | Inr (v, n) \<Rightarrow> n \<le> length data)"
  by (auto simp: parse_listpack_entry_def bindE_def idx_def slice_def Let_def
        intro!: listpack_special_value_in_bounds)

lemma ziplist_loop_returns: "\<exists>xs. ziplist_loop env data n pos result = Inr xs"
  by (induction n arbitrary: pos result)
     (auto simp: bindE_def idx_def Let_def split: sum.split prod.split)

lemma parse_ziplist_returns: "\<exists>xs. parse_ziplist env data = Inr xs"
  using ziplist_loop_returns
  by (auto simp: parse_ziplist_def bindE_def slice_def unpack_u_def Let_def)

lemma parse_listpack_returns: "\<exists>xs. parse_listpack env data = Inr xs"
  by (auto simp: parse_listpack_def bindE_def slice_def unpack_u_def Let_def)

text \<open>
  On every buffer the two entry parsers return without an exception, so none of their
  indexed reads \<^verbatim>\<open>data[i]\<close> is out of range and every \<^verbatim>\<open>unpack\<close> gets a slice of full
  width; the number of bytes they report as read is at most the length of the buffer; and
  \<^verbatim>\<open>parse_ziplist\<close> and \<^verbatim>\<open>parse_listpack\<close> return a list.
\<close>

lemma ziplist_listpack_in_bounds:
  "(case parse_ziplist_entry env data of Inl e \<Rightarrow> False | Inr (v, n) \<Rightarrow> n \<le> length data)
   \<and> (case parse_listpack_entry env data of Inl e \<Rightarrow> False | Inr (v, n) \<Rightarrow> n \<le> length data)
   \<and> (\<exists>xs. parse_ziplist env data = Inr xs)
   \<and> (\<exists>xs. parse_listpack env data = Inr xs)"
  using parse_ziplist_entry_in_bounds [where env = env and data = data]
    parse_listpack_entry_in_bounds [where env = env and data = data]
    parse_ziplist_returns [where env = env and data = data]
    parse_listpack_returns [where env = env and data = data]
  by simp

text \<open>
  C6. The claim: no read of the ziplist, listpack or intset decoder goes to or past the
  end of its buffer, also when a count or length in the buffer promises more than is
  there, and a read that would go past it cuts the result short. The intset decoder does
  not keep to it for elements of 8 bytes: its test \<^verbatim>\<open>pos + size > len\<close> uses the step 4
  that \<^verbatim>\<open>[2, 4, 8][encoding] if encoding < 3 else 4\<close> gives for that width, and the read
  that follows asks for 8 bytes. The first buffer below, of 16 bytes, has the header of an
  intset of two 8-byte elements and holds one, the value 1. The first round reads it and
  moves to 12; the second passes the test (12 + 4 is not above 16), asks for the bytes 12
  to 20, gets 4, and \<^verbatim>\<open>unpack\<close> raises; the bare \<^verbatim>\<open>except\<close> returns the empty list, and
  the element that was read is lost. So it is for the file bytes \<open>10\<close> and that buffer.
  With the count 1 in the header the element is returned.
\<close>

theorem intset_width_8_reads_past_buffer:
  "intset_elements [8, 0, 0, 0,  2, 0, 0, 0,  1, 0, 0, 0, 0, 0, 0, 0] = Inl (Struct_error 8 4)
   \<and> intset_of_bytes [8, 0, 0, 0,  2, 0, 0, 0,  1, 0, 0, 0, 0, 0, 0, 0] = []
   \<and> read_set_intset env [0x10,  8, 0, 0, 0,  2, 0, 0, 0,  1, 0, 0, 0, 0, 0, 0, 0]
       = (Inr [], [])
   \<and> intset_of_bytes [8, 0, 0, 0,  1, 0, 0, 0,  1, 0, 0, 0, 0, 0, 0, 0] = [lit ''1'']"
  by (simp add: read_set_intset_def read_string_raw_def reader_defs intset_of_bytes_def
      intset_elements_def buffer_defs intset_loop_unfold str_int_def str_nat.simps lit_def)

section \<open>Sorted sets in a ziplist or listpack: the score\<close>

definition is_float :: "pynum \<Rightarrow> bool" where
  \<comment> \<open>\<^verbatim>\<open>isinstance(x, float)\<close>\<close>
  "is_float x = (case x of PInt _ \<Rightarrow> False | _ \<Rightarrow> True)"

lemma zset_of_entries_nth:
  "2 * i + 1 < length entries \<Longrightarrow>
   zset_of_entries entries ! i =
     (str_elem (entries ! (2 * i)),
      (case entries ! (2 * i + 1) of EInt n \<Rightarrow> PFloat_of_int n | EStr s \<Rightarrow> PInt 0))"
proof (induction entries arbitrary: i rule: zset_of_entries.induct)
  case (1 m s entries)
  show ?case
  proof (cases i)
    case 0
    then show ?thesis by simp
  next
    case (Suc j)
    then have "2 * j + 1 < length entries" using "1.prems" by simp
    then show ?thesis using "1.IH" [of j] Suc by simp
  qed
qed simp_all

text \<open>
  C9, as stated: a score element decoded as a string is emitted as the constant 0 "as a
  float". The source's expression is
  \<^verbatim>\<open>float(entries[i + 1]) if isinstance(entries[i + 1], (int, float)) else 0\<close>: the constant
  is the \<^verbatim>\<open>int\<close> 0, which \<^verbatim>\<open>json.dumps\<close> writes as \<open>0\<close>, next to \<open>3.0\<close> for an
  integer score 3. The ziplist below holds the member \<open>m\<close> and the score string \<open>1.5\<close>.
\<close>

theorem zset_string_score_not_a_float:
  "read_zset_ziplist plain_env
     [0x13,  0x13, 0, 0, 0,  0x0D, 0, 0, 0,  2, 0,
      0x00, 0x01, 0x6D,  0x03, 0x03, 0x31, 0x2E, 0x35,  0xFF]
     = (Inr [(lit ''m'', PInt 0)], [])
   \<and> \<not> is_float (PInt 0)"
  by (simp add: read_zset_ziplist_def read_string_raw_def reader_defs parse_ziplist_def
      parse_ziplist_entry_def ziplist_entry_value_def buffer_defs ziplist_loop_unfold
      str_elem_def lit_def is_float_def)

text \<open>
  C9, amended: both decoders pair the entries two at a time; the score of pair \<open>i\<close> is
  the integer constant 0 when its score element is a string, whatever the string holds, and
  \<^verbatim>\<open>float(n)\<close> when it is the inline integer \<open>n\<close>.
\<close>

theorem zset_string_score_is_int_zero:
  assumes "read_string_raw env f = (Inr (Some bs), f')"
    and "parse_ziplist env bs = Inr zl" and "parse_listpack env bs = Inr lp"
  shows "read_zset_ziplist env f = (Inr (zset_of_entries zl), f')
    \<and> read_zset_listpack env f = (Inr (zset_of_entries lp), f')
    \<and> (\<forall>entries i. 2 * i + 1 < length entries \<longrightarrow>
          zset_of_entries entries ! i =
            (str_elem (entries ! (2 * i)),
             (case entries ! (2 * i + 1) of
                EInt n \<Rightarrow> PFloat_of_int n
              | EStr s \<Rightarrow> PInt 0)))"
  using assms zset_of_entries_nth
  by (simp add: read_zset_ziplist_def read_zset_listpack_def read_listpack_def bindR_def
      returnR_def)

theorem zset_string_score_is_int_zero_witness:
  "read_zset_ziplist plain_env
     [0x10,  0x10, 0, 0, 0,  0x0D, 0, 0, 0,  2, 0,  0x00, 0x01, 0x6D,  0x03, 0xF4,  0xFF]
     = (Inr [(lit ''m'', PFloat_of_int 3)], [])
   \<and> zset_of_entries [EStr (lit ''m''), EStr (lit ''1.5'')] ! 0 = (lit ''m'', PInt 0)"
proof -
  let ?bs = "[0x10, 0, 0, 0,  0x0D, 0, 0, 0,  2, 0,  0x00, 0x01, 0x6D,  0x03, 0xF4,  0xFF] :: byte list"
  have raw: "read_string_raw plain_env (0x10 # ?bs) = (Inr (Some ?bs), [])"
    by (simp add: read_string_raw_def reader_defs)
  have zl: "parse_ziplist plain_env ?bs = Inr [EStr (lit ''m''), EInt 3]"
    by (simp add: parse_ziplist_def parse_ziplist_entry_def ziplist_entry_value_def buffer_defs
        ziplist_loop_unfold lit_def)
  obtain lp where lp: "parse_listpack plain_env ?bs = Inr lp"
    using parse_listpack_returns by blast
  have "2 * 0 + 1 < length [EStr (lit ''m''), EStr (lit ''1.5'')]" by simp
  then show ?thesis
    using zset_string_score_is_int_zero [OF raw zl lp] by (simp add: str_elem_def)
qed

section \<open>Pending metadata\<close>

text \<open>
  C3. The claim: after every value-type record, also one whose value raises or whose key is
  skipped, the pending expiry, idle and freq are unset, so that they never reach a later
  entry. The code resets them under \<^verbatim>\<open># Reset metadata\<close> at the end of the \<^verbatim>\<open>try\<close>
  block only; the \<^verbatim>\<open>except\<close> branch and the two \<^verbatim>\<open>continue\<close> paths leave them as they
  are. First round below: with expiry 1000 pending, a list record with key \<open>a\<close> whose
  length byte \<open>C0\<close> makes \<^verbatim>\<open>read_length\<close> raise; the expiry is still pending
  afterwards. Second round: the same after a string record whose key is empty and skipped.
  Then two whole files, read in full mode. In
  \<open>REDIS0011 FC <1000> 00 00 01 'x' 00 01 'b' 01 'y' FF\<close> the expiry belongs to the
  record with the empty key and ends up on \<open>b\<close>; in
  \<open>REDIS0011 FC <1000> 01 01 'a' C0 00 01 'b' 01 'x' FF\<close> it belongs to the record
  \<open>a\<close>, whose value fails, and ends up on \<open>b\<close>.
\<close>

theorem pending_metadata_survives_failed_record:
  "parse_step env False
     \<lparr>infile = [0x01, 0x01, 0x61, 0xC0,  0x00, 0x01, 0x62, 0x01, 0x78,  0xFF],
      self_data = [], aux_data = [], current_db = 0,
      expiry = Some 1000, idle = None, freq = None\<rparr>
   = (True,
     \<lparr>infile = [0x00, 0x01, 0x62, 0x01, 0x78,  0xFF],
      self_data = [(lit ''a'', Failed Encoded_in_length (lit ''list''))],
      aux_data = [], current_db = 0,
      expiry = Some 1000, idle = None, freq = None\<rparr>)
   \<and> parse_step env False
     \<lparr>infile = [0x00, 0x00, 0x01, 0x78,  0xFF],
      self_data = [], aux_data = [], current_db = 0,
      expiry = Some 1000, idle = Some 5, freq = Some 7\<rparr>
   = (True,
     \<lparr>infile = [0xFF], self_data = [], aux_data = [], current_db = 0,
      expiry = Some 1000, idle = Some 5, freq = Some 7\<rparr>)
   \<and> parse plain_env False
     (map of_char ''REDIS0011'' @
      [0xFC, 0xE8, 0x03, 0, 0, 0, 0, 0, 0,
       0x00, 0x00, 0x01, 0x78,
       0x00, 0x01, 0x62, 0x01, 0x79,
       0xFF])
   = Inr \<lparr>rdb_version = lit ''0011'', aux = [], db = 0,
          keys = [(lit ''b'', Full \<lparr>entry_value = VStr (lit ''y''), entry_type = lit ''string'',
                                     entry_expiry_ms = Some 1000, entry_idle = None,
                                     entry_freq = None\<rparr>)]\<rparr>
   \<and> parse plain_env False
     (map of_char ''REDIS0011'' @
      [0xFC, 0xE8, 0x03, 0, 0, 0, 0, 0, 0,
       0x01, 0x01, 0x61, 0xC0,
       0x00, 0x01, 0x62, 0x01, 0x78,
       0xFF])
   = Inr \<lparr>rdb_version = lit ''0011'', aux = [], db = 0,
          keys = [(lit ''a'', Failed Encoded_in_length (lit ''list'')),
                  (lit ''b'', Full \<lparr>entry_value = VStr (lit ''x''), entry_type = lit ''string'',
                                     entry_expiry_ms = Some 1000, entry_idle = None,
                                     entry_freq = None\<rparr>)]\<rparr>"
  by (simp add: parse_def parse_loop.simps parse_step_def read_entry_def read_string_def
      reader_defs decode_def invalid_key_def startswith_def lit_def read_value_def
      get_type_name_def store_value_def plain_env_def)

section \<open>A value that fails to decode\<close>




text \<open>
  The whole file of the second round: after the read that was refused, the loop goes on at
  the next record and stores \<open>b\<close>.
\<close>

lemma parse_goes_on_after_refused_read:
  "parse plain_env False
     (map of_char ''REDIS0011'' @
      [0x0A, 0x01, 0x61, 0x81, 0xFF, 0xFF, 0xFF, 0xFF, 0xFF, 0xFF, 0xFF, 0xFF,
       0x00, 0x01, 0x62, 0x01, 0x79,
       0xFF])
   = Inr \<lparr>rdb_version = lit ''0011'', aux = [], db = 0,
          keys = [(lit ''a'', Failed (Overflow_error 18446744073709551615) (lit ''list'')),
                  (lit ''b'', Full \<lparr>entry_value = VStr (lit ''y''), entry_type = lit ''string'',
                                     entry_expiry_ms = None, entry_idle = None,
                                     entry_freq = None\<rparr>)]\<rparr>"
  by (simp add: parse_def parse_loop.simps parse_step_def read_entry_def read_string_def
      reader_defs decode_def invalid_key_def startswith_def lit_def read_value_def
      read_list_ziplist_def read_string_raw_def get_type_name_def store_value_def
      plain_env_def)

section \<open>An expiry of zero\<close>

text \<open>
  C10. In full mode, a value-type record read with a pending expiry of 0 gets an entry
  without \<^verbatim>\<open>expiry_ms\<close> (the test is \<^verbatim>\<open>if expiry:\<close>), the same entry as with no
  expiry pending, while a pending idle and a pending freq, 0 included, are attached (the
  tests are \<^verbatim>\<open>is not None\<close>).
\<close>

theorem zero_expiry_is_dropped:
  assumes "infile st = b # f" and "unat b < 0xF8"
    and "read_string env f = (Inr key, f')" and "\<not> invalid_key key"
    and "read_value env (unat b) f' = (Inr v, f'')"
    and "expiry st = Some 0"
  shows "\<exists>st'. parse_step env False st = (True, st')
     \<and> map_of (self_data st') key =
         Some (Full \<lparr>entry_value = v, entry_type = get_type_name (unat b),
                     entry_expiry_ms = None, entry_idle = idle st, entry_freq = freq st\<rparr>)
     \<and> self_data st' = self_data (snd (parse_step env False (st\<lparr>expiry := None\<rparr>)))"
proof -
  let ?st' = "read_entry env False (unat b) f st"
  have step: "parse_step env False st = (True, ?st')"
    using assms(1,2) by (rule parse_step_value_type)
  have none: "parse_step env False (st\<lparr>expiry := None\<rparr>)
                = (True, read_entry env False (unat b) f (st\<lparr>expiry := None\<rparr>))"
    using assms(1,2) by (intro parse_step_value_type) simp_all
  have "map_of (self_data ?st') key =
         Some (Full \<lparr>entry_value = v, entry_type = get_type_name (unat b),
                     entry_expiry_ms = None, entry_idle = idle st, entry_freq = freq st\<rparr>)"
    and "self_data ?st' = self_data (read_entry env False (unat b) f (st\<lparr>expiry := None\<rparr>))"
    using assms(3-6) by (simp_all add: read_entry_def store_value_def map_of_dict_set)
  then show ?thesis using step none by simp
qed

theorem zero_expiry_is_dropped_witness:
  "\<exists>st'. parse_step plain_env False
            \<lparr>infile = [0x00, 0x01, 0x6B, 0x01, 0x76, 0xFF], self_data = [], aux_data = [],
             current_db = 0, expiry = Some 0, idle = Some 0, freq = Some 0\<rparr> = (True, st')
     \<and> map_of (self_data st') (lit ''k'') =
         Some (Full \<lparr>entry_value = VStr (lit ''v''), entry_type = lit ''string'',
                     entry_expiry_ms = None, entry_idle = Some 0, entry_freq = Some 0\<rparr>)"
proof -
  let ?st = "\<lparr>infile = [0x00, 0x01, 0x6B, 0x01, 0x76, 0xFF], self_data = [], aux_data = [],
              current_db = 0, expiry = Some 0, idle = Some 0, freq = Some 0\<rparr>"
  have h1: "infile ?st = 0x00 # [0x01, 0x6B, 0x01, 0x76, 0xFF]" by simp
  have h2: "unat (0x00 :: byte) < 0xF8" by simp
  have h3: "read_string plain_env [0x01, 0x6B, 0x01, 0x76, 0xFF]
              = (Inr (lit ''k''), [0x01, 0x76, 0xFF])"
    by (simp add: read_string_def reader_defs decode_def lit_def)
  have h4: "\<not> invalid_key (lit ''k'')"
    by (simp add: invalid_key_def startswith_def lit_def)
  have h5: "read_value plain_env (unat (0x00 :: byte)) [0x01, 0x76, 0xFF]
              = (Inr (VStr (lit ''v'')), [0xFF])"
    by (simp add: read_value_def read_string_def reader_defs decode_def lit_def)
  have h6: "expiry ?st = Some 0" by simp
  obtain st' where
    "parse_step plain_env False ?st = (True, st')"
    "map_of (self_data st') (lit ''k'') =
       Some (Full \<lparr>entry_value = VStr (lit ''v''), entry_type = get_type_name (unat (0x00 :: byte)),
                   entry_expiry_ms = None, entry_idle = idle ?st, entry_freq = freq ?st\<rparr>)"
    using zero_expiry_is_dropped [OF h1 h2 h3 h4 h5 h6] by blast
  then show ?thesis by (auto simp: get_type_name_def)
qed

section \<open>Truncated files\<close>

text \<open>
  C8. A file that starts with \<open>REDIS\<close> and four ASCII bytes makes \<^verbatim>\<open>parse\<close> return its
  dictionary, with those four bytes as the version, whatever follows and wherever it
  stops: every exception past the header is caught inside the loop, and the loop ends
  because each round that goes on has read a byte. A file that does not start with
  \<open>REDIS\<close> makes \<^verbatim>\<open>parse\<close> raise.
\<close>

theorem parse_returns_on_truncated_input:
  "(take 5 contents = map of_char ''REDIS'' \<and> 9 \<le> length contents
      \<and> list_all (\<lambda>b. b < 0x80) (take 4 (drop 5 contents))
    \<longrightarrow> (\<exists>snap. parse env simple_format contents = Inr snap
           \<and> rdb_version snap = map unat (take 4 (drop 5 contents))))
   \<and> (take 5 contents \<noteq> map of_char ''REDIS''
    \<longrightarrow> (\<exists>e. parse env simple_format contents = Inl e))"
  by (auto simp: parse_def read_bytes_def Let_def min_def split: if_splits)

theorem parse_returns_on_truncated_input_witness:
  "(\<exists>snap. parse plain_env False (map of_char ''REDIS0011'' @ [0xFA, 0x09, 0x72, 0x65]) = Inr snap
        \<and> rdb_version snap = lit ''0011'')
   \<and> (\<exists>e. parse plain_env False (map of_char ''RDB'') = Inl e)"
  using parse_returns_on_truncated_input
          [of "map of_char ''REDIS0011'' @ [0xFA, 0x09, 0x72, 0x65]" plain_env False]
    parse_returns_on_truncated_input [of "map of_char ''RDB''" plain_env False]
  by (simp add: lit_def)

end
